theory Spec2Isabelle
  imports Complex_Main "HOL-Library.AList"
begin

section \<open>Values, errors and Python containers\<close>

text \<open>
  The two notebooks compute with Python floats and with the values of a decoded JSON
  document. A float that is a finite number is a \<open>real\<close> here. The mean of two floats in
  \<open>median\<close> is rounded as binary64 arithmetic rounds it; the other float operations are
  taken as the exact operations on the reals.
  Every exception the cells can raise is a constructor of \<open>error\<close>. \<open>NotFinite\<close> is not
  an exception: it marks a float result that is \<open>nan\<close> or infinite (pandas gives \<open>nan\<close> for
  the mean of no value and for the standard deviation of fewer than two values, numpy
  gives \<open>nan\<close> or an infinity for a float division by zero), which no real number stands
  for.
\<close>

datatype error = KeyError | TypeError | ValueError | IndexError | ZeroDivisionError | NotFinite

text \<open>A cell of the JSON table: \<open>null\<close> (Python \<open>None\<close>), a number or a string.\<close>

datatype jvalue = JNull | JNum real | JStr string

text \<open>
  A Python \<open>dict\<close> keeps its keys in insertion order; assigning to a key that exists
  replaces the value in place. That is an association list under \<open>AList.update\<close>.
\<close>

type_synonym ('k, 'v) py_dict = "('k \<times> 'v) list"

text \<open>\<open>dict(pairs)\<close>: the pairs are inserted from left to right.\<close>

definition dict_of :: "('k \<times> 'v) list \<Rightarrow> ('k, 'v) py_dict" where
  "dict_of kvs = fold (\<lambda>kv d. AList.update (fst kv) (snd kv) d) kvs []"

text \<open>\<open>d[k]\<close> raises \<open>KeyError\<close> for a key that is not there.\<close>

definition subscript :: "('k, 'v) py_dict \<Rightarrow> 'k \<Rightarrow> error + 'v" where
  "subscript d k = (case map_of d k of None \<Rightarrow> Inl KeyError | Some v \<Rightarrow> Inr v)"

text \<open>\<open>d.pop(k, None)\<close>: the value removed (\<open>None\<close> when the key is missing) and the dict left.\<close>

definition pop_default :: "(string, jvalue) py_dict \<Rightarrow> string \<Rightarrow> jvalue \<times> (string, jvalue) py_dict" where
  "pop_default d k = (case map_of d k of None \<Rightarrow> (JNull, d) | Some v \<Rightarrow> (v, AList.delete k d))"

text \<open>\<open>d.values()\<close>, in insertion order.\<close>

definition dict_values :: "('k, 'v) py_dict \<Rightarrow> 'v list" where
  "dict_values d = map snd d"




text \<open>\<open>xs[i]\<close>: a negative index counts from the end, an index outside raises \<open>IndexError\<close>.\<close>

definition py_index :: "'a list \<Rightarrow> int \<Rightarrow> error + 'a" where
  "py_index xs i =
     (let l = int (length xs); j = (if i < 0 then i + l else i)
      in if j < 0 \<or> l \<le> j then Inl IndexError else Inr (xs ! nat j))"

text \<open>A list comprehension whose body can raise stops at the first exception.\<close>

fun comprehension :: "('a \<Rightarrow> error + 'b) \<Rightarrow> 'a list \<Rightarrow> error + 'b list" where
  "comprehension f [] = Inr []"
| "comprehension f (x # xs) =
     (case f x of
        Inl e \<Rightarrow> Inl e
      | Inr y \<Rightarrow> (case comprehension f xs of Inl e \<Rightarrow> Inl e | Inr ys \<Rightarrow> Inr (y # ys)))"

section \<open>The stock price notebook\<close>

subsection \<open>\<open>create_stock_price_dict\<close>\<close>

text \<open>
  \<open>json_data['dataset_data']\<close> holds the column names and one row of cells per day.
  The function pairs each row with the column names, keeps the day when its \<open>Open\<close> cell
  is not \<open>None\<close>, removes the \<open>Date\<close> entry from the day's dict and files the dict under
  that date.
\<close>

record dataset_data =
  column_names :: "string list"
  data :: "jvalue list list"

type_synonym day_prices = "(string, jvalue) py_dict"
type_synonym stock_price_dict = "(jvalue, day_prices) py_dict"

fun stock_day_loop :: "string list \<Rightarrow> jvalue list list \<Rightarrow> stock_price_dict \<Rightarrow> error + stock_price_dict" where
  "stock_day_loop cols [] stock_price_dict = Inr stock_price_dict"
| "stock_day_loop cols (stock_day # rest) stock_price_dict =
     (let current_day_prices = dict_of (zip cols stock_day) in
      case subscript current_day_prices ''Open'' of
        Inl e \<Rightarrow> Inl e
      | Inr opening \<Rightarrow>
          if opening \<noteq> JNull then
            (let popped = pop_default current_day_prices ''Date'';
                 current_date = fst popped;
                 current_day_prices = snd popped
             in stock_day_loop cols rest (AList.update current_date current_day_prices stock_price_dict))
          else stock_day_loop cols rest stock_price_dict)"

definition create_stock_price_dict :: "dataset_data \<Rightarrow> error + stock_price_dict" where
  "create_stock_price_dict json_data = stock_day_loop (column_names json_data) (data json_data) []"

subsection \<open>The cells of questions 3 to 5\<close>

text \<open>\<open>[daily_prices[k] for daily_prices in afx_2017_data.values()]\<close>\<close>

definition column :: "string \<Rightarrow> stock_price_dict \<Rightarrow> error + jvalue list" where
  "column k afx = comprehension (\<lambda>daily_prices. subscript daily_prices k) (dict_values afx)"

definition opening_prices :: "stock_price_dict \<Rightarrow> error + jvalue list" where
  "opening_prices afx = column ''Open'' afx"





text \<open>
  Question 5: the closing prices, and \<open>abs(a - b)\<close> over
  \<open>zip(closing_prices[1:], closing_prices[:-1])\<close>.
\<close>

definition closing_prices :: "stock_price_dict \<Rightarrow> error + jvalue list" where
  "closing_prices afx = column ''Close'' afx"





subsection \<open>\<open>median\<close>\<close>

text \<open>
  Python lists are objects: \<open>sorted_list = x\<close> makes a second name for the caller's list
  and \<open>sorted_list.sort()\<close> sorts that one list in place. The store maps each list object
  to its contents; \<open>median\<close> takes the store and the object it is called on, and returns
  its result with the store it leaves behind.
\<close>

type_synonym ref = nat
type_synonym store = "ref \<Rightarrow> real list"

text \<open>
  The numbers of a list are Python floats, that is binary64 numbers: \<open>m * 2^k\<close> with
  \<open>|m| < 2^53\<close>, \<open>k \<ge> -1074\<close> and a magnitude below \<open>2^1024\<close>. A float operation returns the
  exact result rounded to the nearest such number, a tie going to the even one, and an
  infinity when the rounded magnitude reaches \<open>2^1024\<close>.
\<close>

definition round_half_even :: "real \<Rightarrow> int" where
  "round_half_even q =
     (let f = \<lfloor>q\<rfloor>; d = q - of_int f
      in if d < 1 / 2 then f else if 1 / 2 < d then f + 1 else if even f then f else f + 1)"

text \<open>The spacing of the binary64 numbers around \<open>x\<close>.\<close>

definition double_ulp :: "real \<Rightarrow> real" where
  "double_ulp x = 2 powr of_int (max \<lfloor>log 2 \<bar>x\<bar>\<rfloor> (- 1022) - 52)"

definition round_double :: "real \<Rightarrow> error + real" where
  "round_double x =
     (if x = 0 then Inr 0
      else (let r = of_int (round_half_even (x / double_ulp x)) * double_ulp x
            in if 2 ^ 1024 \<le> \<bar>r\<bar> then Inl NotFinite else Inr r))"

text \<open>\<open>(a + b) / 2\<close> on two floats: the sum is rounded, then its half; an infinite sum stays infinite.\<close>

definition float_mean :: "real \<Rightarrow> real \<Rightarrow> error + real" where
  "float_mean a b = (case round_double (a + b) of Inl e \<Rightarrow> Inl e | Inr s \<Rightarrow> round_double (s / 2))"

definition list_sort :: "store \<Rightarrow> ref \<Rightarrow> store" where
  "list_sort st r = st(r := sort (st r))"

definition median :: "store \<Rightarrow> ref \<Rightarrow> (error + real) \<times> store" where
  "median st x =
     (let sorted_list = x;
          st = list_sort st sorted_list;
          l = int (length (st sorted_list))
      in if l mod 2 = 1 then
           (let i = (l - 1) div 2 in (py_index (st sorted_list) i, st))
         else
           (let i = l div 2 in
            (case py_index (st sorted_list) (i - 1) of
               Inl e \<Rightarrow> Inl e
             | Inr a \<Rightarrow> (case py_index (st sorted_list) i of Inl e \<Rightarrow> Inl e | Inr b \<Rightarrow> float_mean a b),
             st)))"

section \<open>The frequentist inference notebook\<close>

subsection \<open>Summary statistics of a column\<close>

text \<open>
  \<open>Series.mean()\<close> is the sum over the count, \<open>nan\<close> for an empty column.
  \<open>Series.std()\<close> is the square root of the sum of squared deviations from the mean over
  the count less one, \<open>nan\<close> for fewer than two values.
\<close>

definition series_mean :: "real list \<Rightarrow> error + real" where
  "series_mean xs = (if xs = [] then Inl NotFinite else Inr (sum_list xs / real (length xs)))"

definition squared_deviations :: "real list \<Rightarrow> real" where
  "squared_deviations xs = (\<Sum>x\<leftarrow>xs. (x - sum_list xs / real (length xs))\<^sup>2)"

definition series_std :: "real list \<Rightarrow> error + real" where
  "series_std xs =
     (if length xs < 2 then Inl NotFinite
      else Inr (sqrt (squared_deviations xs / (real (length xs) - 1))))"

subsection \<open>The confidence interval of question 3\<close>



subsection \<open>The two-sample t-test of question 5, by hand\<close>

text \<open>
  \<open>g0\<close> and \<open>g1\<close> are the charges of the two groups. \<open>n_0\<close> and \<open>n_1\<close> are Python integers,
  so \<open>1/n_0\<close> raises \<open>ZeroDivisionError\<close> for an empty group; the other divisions are
  float divisions, whose result is not finite when the divisor is zero.
\<close>

definition s_p :: "real list \<Rightarrow> real list \<Rightarrow> error + real" where
  "s_p g0 g1 =
     (let n_0 = int (length g0); n_1 = int (length g1) in
      case series_std g0 of
        Inl e \<Rightarrow> Inl e
      | Inr s_0 \<Rightarrow>
          (case series_std g1 of
             Inl e \<Rightarrow> Inl e
           | Inr s_1 \<Rightarrow>
               if n_0 + n_1 - 2 = 0 then Inl NotFinite
               else Inr (sqrt ((real_of_int (n_0 - 1) * s_0\<^sup>2 + real_of_int (n_1 - 1) * s_1\<^sup>2)
                               / real_of_int (n_0 + n_1 - 2)))))"

definition t_manual :: "real list \<Rightarrow> real list \<Rightarrow> error + real" where
  "t_manual g0 g1 =
     (let n_0 = int (length g0); n_1 = int (length g1) in
      if n_0 = 0 \<or> n_1 = 0 then Inl ZeroDivisionError
      else
        case series_mean g0 of
          Inl e \<Rightarrow> Inl e
        | Inr xbar_0 \<Rightarrow>
            (case series_mean g1 of
               Inl e \<Rightarrow> Inl e
             | Inr xbar_1 \<Rightarrow>
                 (case s_p g0 g1 of
                    Inl e \<Rightarrow> Inl e
                  | Inr sp \<Rightarrow>
                      (let d = sp * sqrt (1 / real_of_int n_0 + 1 / real_of_int n_1) in
                       if d = 0 then Inl NotFinite else Inr ((xbar_0 - xbar_1) / d)))))"

definition df :: "real list \<Rightarrow> real list \<Rightarrow> int" where
  "df g0 g1 = int (length g0) + int (length g1) - 2"

text \<open>
  \<open>p_manual = 2 * t.cdf(t_manual, df=df)\<close>. The cell goes on when the statistic is not
  finite. With both means and the pooled deviation finite, that is with a pooled deviation
  of 0, the statistic is \<open>+inf\<close> when the first mean is the larger one, \<open>-inf\<close> when it is
  the smaller one and \<open>nan\<close> when they are equal; \<open>t.cdf\<close> is 1 at \<open>+inf\<close> and 0 at \<open>-inf\<close>.
  In every other case the statistic and the p-value are \<open>nan\<close>.
\<close>

definition p_manual :: "(real \<Rightarrow> int \<Rightarrow> real) \<Rightarrow> real list \<Rightarrow> real list \<Rightarrow> error + real" where
  "p_manual cdf g0 g1 =
     (case t_manual g0 g1 of
        Inr t \<Rightarrow> Inr (2 * cdf t (df g0 g1))
      | Inl e \<Rightarrow>
          if e = ZeroDivisionError then Inl e
          else
            (case series_mean g0 of
               Inl e0 \<Rightarrow> Inl NotFinite
             | Inr xbar_0 \<Rightarrow>
                 (case series_mean g1 of
                    Inl e1 \<Rightarrow> Inl NotFinite
                  | Inr xbar_1 \<Rightarrow>
                      (case s_p g0 g1 of
                         Inl e2 \<Rightarrow> Inl NotFinite
                       | Inr sp \<Rightarrow>
                           if xbar_1 < xbar_0 then Inr 2
                           else if xbar_0 < xbar_1 then Inr 0
                           else Inl NotFinite))))"

subsection \<open>Student's t with two degrees of freedom\<close>

text \<open>
  For two degrees of freedom the distribution function of Student's t and its inverse
  have closed forms; they serve as the scipy functions in the worked examples, all of
  which have two degrees of freedom.
\<close>

definition student2_cdf :: "real \<Rightarrow> int \<Rightarrow> real" where
  "student2_cdf x d = 1 / 2 + x / (2 * sqrt (2 + x\<^sup>2))"


text \<open>
  What the theorems below use of a distribution function of Student's t: it is symmetric
  about zero and its values are probabilities.
\<close>

definition symmetric_cdf :: "(real \<Rightarrow> int \<Rightarrow> real) \<Rightarrow> bool" where
  "symmetric_cdf cdf \<longleftrightarrow>
     (\<forall>x d. cdf (- x) d = 1 - cdf x d) \<and> (\<forall>x d. 0 \<le> cdf x d \<and> cdf x d \<le> 1)"

subsection \<open>The two-sample t-test as the specification words it\<close>

text \<open>
  The pooled standard deviation, the statistic and the degrees of freedom as above, and
  the two-sided p-value \<open>2 * F(min(t, -t); df)\<close>. This is the equal-variance test a
  statistics library computes, to which the notebook compares its own numbers.
\<close>

definition ttest_reference :: "(real \<Rightarrow> int \<Rightarrow> real) \<Rightarrow> real list \<Rightarrow> real list \<Rightarrow> real \<times> real" where
  "ttest_reference cdf a b =
     (let n0 = real (length a); n1 = real (length b);
          m0 = sum_list a / n0; m1 = sum_list b / n1;
          v0 = squared_deviations a / (n0 - 1); v1 = squared_deviations b / (n1 - 1);
          sp = sqrt (((n0 - 1) * v0 + (n1 - 1) * v1) / (n0 + n1 - 2));
          t = (m0 - m1) / (sp * sqrt (1 / n0 + 1 / n1))
      in (t, 2 * cdf (min t (- t)) (int (length a) + int (length b) - 2)))"

section \<open>Predicates and worked inputs of the theorems\<close>

text \<open>A day's record with an opening price that is not \<open>None\<close> and with no \<open>Date\<close> entry.\<close>

definition clean_record :: "day_prices \<Rightarrow> bool" where
  "clean_record r \<longleftrightarrow> (\<exists>v. map_of r ''Open'' = Some v \<and> v \<noteq> JNull) \<and> map_of r ''Date'' = None"

text \<open>A row of the table whose \<open>Open\<close> cell is not \<open>None\<close>.\<close>

definition open_present :: "string list \<Rightarrow> jvalue list \<Rightarrow> bool" where
  "open_present cols stock_day \<longleftrightarrow> subscript (dict_of (zip cols stock_day)) ''Open'' \<noteq> Inr JNull"


text \<open>A table of two days: the first has no closing price, the second no opening price.\<close>

definition example_dataset :: dataset_data where
  "example_dataset = \<lparr>column_names = [''Date'', ''Open'', ''Close''],
     data = [[JStr ''2017-05-02'', JNum 2, JNull], [JStr ''2017-05-01'', JNull, JNum 1]]\<rparr>"




text \<open>A store with one list, at reference 0.\<close>

definition one_list :: "real list \<Rightarrow> store" where
  "one_list xs = (\<lambda>r. [])(0 := xs)"


section \<open>\<open>create_stock_price_dict\<close> keeps the days that opened\<close>

lemma set_update_subset: "set (AList.update k v al) \<subseteq> insert (k, v) (set al)"
  by (induct al) auto

lemma pop_default_clean:
  assumes "subscript d ''Open'' = Inr v" and "v \<noteq> JNull"
  shows "clean_record (snd (pop_default d ''Date''))"
  using assms
  by (auto simp: clean_record_def pop_default_def subscript_def AList.delete_conv' split: option.splits)

lemma stock_day_loop_clean:
  "stock_day_loop cols rows d = Inr d' \<Longrightarrow> \<forall>r\<in>set (dict_values d). clean_record r
     \<Longrightarrow> \<forall>r\<in>set (dict_values d'). clean_record r"
proof (induction cols rows d rule: stock_day_loop.induct)
  case (1 cols d)
  then show ?case by simp
next
  case (2 cols stock_day rest d)
  let ?cdp = "dict_of (zip cols stock_day)"
  from "2.prems"(1) obtain v where v: "subscript ?cdp ''Open'' = Inr v"
    by (auto simp: Let_def split: sum.splits)
  show ?case
  proof (cases "v = JNull")
    case True
    with v "2.prems" "2.IH"(2)[OF refl v] show ?thesis by (simp add: Let_def)
  next
    case False
    let ?p = "pop_default ?cdp ''Date''"
    have c: "clean_record (snd ?p)" using pop_default_clean[OF v False] .
    have "\<forall>r\<in>set (dict_values (AList.update (fst ?p) (snd ?p) d)). clean_record r"
      using set_update_subset[of "fst ?p" "snd ?p" d] c "2.prems"(2)
      by (fastforce simp: dict_values_def)
    moreover have "stock_day_loop cols rest (AList.update (fst ?p) (snd ?p) d) = Inr d'"
      using "2.prems"(1) v False by (simp add: Let_def)
    ultimately show ?thesis
      using "2.IH"(1)[OF refl v False refl refl refl] by simp
  qed
qed

lemma stock_day_loop_filter:
  "stock_day_loop cols rows d = Inr d'
     \<Longrightarrow> stock_day_loop cols (filter (open_present cols) rows) d = Inr d'"
proof (induction cols rows d rule: stock_day_loop.induct)
  case (1 cols d)
  then show ?case by simp
next
  case (2 cols stock_day rest d)
  let ?cdp = "dict_of (zip cols stock_day)"
  from "2.prems"(1) obtain v where v: "subscript ?cdp ''Open'' = Inr v"
    by (auto simp: Let_def split: sum.splits)
  show ?case
  proof (cases "v = JNull")
    case True
    with v "2.prems" "2.IH"(2)[OF refl v] show ?thesis by (simp add: Let_def open_present_def)
  next
    case False
    let ?p = "pop_default ?cdp ''Date''"
    have "stock_day_loop cols rest (AList.update (fst ?p) (snd ?p) d) = Inr d'"
      using "2.prems"(1) v False by (simp add: Let_def)
    from "2.IH"(1)[OF refl v False refl refl refl this] v False
    show ?thesis by (simp add: Let_def open_present_def)
  qed
qed

lemma open_column_clean:
  "\<forall>r\<in>set rs. clean_record r
     \<Longrightarrow> \<exists>os. comprehension (\<lambda>daily_prices. subscript daily_prices ''Open'') rs = Inr os
            \<and> length os = length rs \<and> JNull \<notin> set os"
  by (induction rs) (auto simp: clean_record_def subscript_def)

text \<open>The function returns a dict as soon as every row reaches the \<open>Open\<close> column.\<close>

lemma fold_update_keys:
  "fst ` set (fold (\<lambda>kv d. AList.update (fst kv) (snd kv) d) kvs acc) = fst ` set kvs \<union> fst ` set acc"
  by (induction kvs arbitrary: acc) (auto simp: AList.dom_update)

lemma subscript_dict_of:
  assumes "k \<in> fst ` set kvs"
  shows "\<exists>v. subscript (dict_of kvs) k = Inr v"
proof -
  from assms have "k \<in> fst ` set (dict_of kvs)" by (simp add: dict_of_def fold_update_keys)
  then have "map_of (dict_of kvs) k \<noteq> None" by (simp add: map_of_eq_None_iff)
  then show ?thesis by (auto simp: subscript_def)
qed

lemma stock_day_loop_returns:
  "\<forall>stock_day\<in>set rows. ''Open'' \<in> fst ` set (zip cols stock_day)
     \<Longrightarrow> \<exists>d'. stock_day_loop cols rows d = Inr d'"
proof (induction rows arbitrary: d)
  case Nil
  then show ?case by simp
next
  case (Cons stock_day rest)
  then obtain v where "subscript (dict_of (zip cols stock_day)) ''Open'' = Inr v"
    using subscript_dict_of[of "''Open''" "zip cols stock_day"] by auto
  with Cons show ?case by (simp add: Let_def)
qed

lemma example_dataset_result:
  "create_stock_price_dict example_dataset
     = Inr [(JStr ''2017-05-02'', [(''Open'', JNum 2), (''Close'', JNull)])]"
  by (simp add: example_dataset_def create_stock_price_dict_def dict_of_def subscript_def
      pop_default_def Let_def)

text \<open>
  Claim C10, as amended. Whenever \<open>create_stock_price_dict\<close> returns a dictionary, every
  record in it has an \<open>Open\<close> value that is not \<open>None\<close> and has no \<open>Date\<close> entry; the rows
  whose \<open>Open\<close> is \<open>None\<close> are excluded, the result being that of the table without them;
  and the list of opening prices built from the dictionary has one entry per record and
  no \<open>None\<close> among them. Nothing is promised for the other columns.
\<close>

theorem create_stock_price_dict_open_present:
  assumes "create_stock_price_dict json_data = Inr afx"
  shows "(\<forall>daily_prices\<in>set (dict_values afx). clean_record daily_prices)
       \<and> create_stock_price_dict
           (json_data\<lparr>data := filter (open_present (column_names json_data)) (data json_data)\<rparr>) = Inr afx
       \<and> (\<exists>os. opening_prices afx = Inr os \<and> length os = length afx \<and> JNull \<notin> set os)"
proof -
  have a: "\<forall>r\<in>set (dict_values afx). clean_record r"
    using stock_day_loop_clean[of "column_names json_data" "data json_data" "[]" afx] assms
    by (simp add: create_stock_price_dict_def dict_values_def)
  have b: "create_stock_price_dict
           (json_data\<lparr>data := filter (open_present (column_names json_data)) (data json_data)\<rparr>) = Inr afx"
    using stock_day_loop_filter[of "column_names json_data" "data json_data" "[]" afx] assms
    by (simp add: create_stock_price_dict_def)
  have c: "\<exists>os. opening_prices afx = Inr os \<and> length os = length afx \<and> JNull \<notin> set os"
    using open_column_clean[OF a] by (simp add: opening_prices_def column_def dict_values_def)
  from a b c show ?thesis by blast
qed

theorem create_stock_price_dict_open_present_witness:
  "create_stock_price_dict example_dataset
     = Inr [(JStr ''2017-05-02'', [(''Open'', JNum 2), (''Close'', JNull)])]
   \<and> clean_record [(''Open'', JNum 2), (''Close'', JNull)]
   \<and> opening_prices [(JStr ''2017-05-02'', [(''Open'', JNum 2), (''Close'', JNull)])] = Inr [JNum 2]"
  using create_stock_price_dict_open_present[OF example_dataset_result]
  by (simp add: example_dataset_result opening_prices_def column_def dict_values_def subscript_def)

text \<open>
  Claim C10 as stated fails in its last part: a day that opened but has no closing price
  is kept, and the list of closing prices built from the dictionary holds a \<open>None\<close>.
\<close>

theorem closing_price_missing_counterexample:
  "create_stock_price_dict example_dataset
     = Inr [(JStr ''2017-05-02'', [(''Open'', JNum 2), (''Close'', JNull)])]
   \<and> closing_prices [(JStr ''2017-05-02'', [(''Open'', JNum 2), (''Close'', JNull)])] = Inr [JNull]"
  by (simp add: example_dataset_result closing_prices_def column_def dict_values_def subscript_def)

section \<open>The intra-day range\<close>








section \<open>The day-over-day differences\<close>

lemma comprehension_length: "comprehension f xs = Inr ys \<Longrightarrow> length ys = length xs"
  by (induction xs arbitrary: ys) (auto split: sum.splits)



lemma column_length: "column k afx = Inr vs \<Longrightarrow> length vs = length afx"
  by (auto simp: column_def dict_values_def dest: comprehension_length)






section \<open>\<open>median\<close>\<close>

lemma round_half_even_int: "round_half_even (of_int n) = n"
  by (simp add: round_half_even_def)










text \<open>The sum of \<open>2^1023\<close> and \<open>2^1023\<close> is beyond the floats: the result is infinite.\<close>

lemma double_ulp_2_1024: "double_ulp (2 ^ 1024) = 2 ^ 972"
proof -
  have "log 2 ((2::real) ^ 1024) = real 1024" by (rule log_pow_cancel) simp_all
  moreover have "\<bar>2 ^ 1024 :: real\<bar> = 2 ^ 1024" by (rule abs_of_nonneg) (rule zero_le_power, simp)
  ultimately have "\<lfloor>log 2 \<bar>2 ^ 1024 :: real\<bar>\<rfloor> = 1024" by (simp only: floor_of_nat)
  then show ?thesis by (simp only: double_ulp_def) simp
qed

lemma float_mean_overflows: "float_mean (2 ^ 1023) (2 ^ 1023) = Inl NotFinite"
proof -
  have s: "(2 ^ 1023 :: real) + 2 ^ 1023 = 2 ^ 1024" by simp
  have q: "(2 ^ 1024 :: real) / 2 ^ 972 = of_int (2 ^ 52)" by simp
  have "round_double (2 ^ 1024) = Inl NotFinite"
    by (simp only: round_double_def double_ulp_2_1024 q round_half_even_int Let_def) simp
  then show ?thesis by (simp only: float_mean_def s sum.case)
qed

lemma median_store: "snd (median st x) = st(x := sort (st x))"
  by (simp add: median_def list_sort_def Let_def)

text \<open>After the call the caller's list is the sorted list; no other list changes.\<close>

lemma median_sorts_argument: "snd (median st x) x = sort (st x)"
  by (simp add: median_store)

lemma median_other_lists: "y \<noteq> x \<Longrightarrow> snd (median st x) y = st y"
  by (simp add: median_store)

lemma py_index_in_range: "i < length xs \<Longrightarrow> py_index xs (int i) = Inr (xs ! i)"
  by (simp add: py_index_def Let_def)

lemma median_odd:
  assumes "length (st x) = 2 * k + 1"
  shows "fst (median st x) = Inr (sort (st x) ! k)"
proof -
  have "(int (length (sort (st x))) - 1) div 2 = int k" using assms by simp
  moreover have "int (length (sort (st x))) mod 2 = 1" using assms by simp
  moreover have "py_index (sort (st x)) (int k) = Inr (sort (st x) ! k)"
    using assms by (intro py_index_in_range) simp
  ultimately show ?thesis by (simp add: median_def list_sort_def Let_def)
qed

lemma median_even:
  assumes "length (st x) = 2 * k + 2"
  shows "fst (median st x) = float_mean (sort (st x) ! k) (sort (st x) ! (k + 1))"
proof -
  have "int (length (sort (st x))) div 2 = int (k + 1)" using assms by simp
  moreover have "int (length (sort (st x))) mod 2 \<noteq> 1" using assms by simp
  moreover have "py_index (sort (st x)) (int (k + 1) - 1) = Inr (sort (st x) ! k)"
    using assms py_index_in_range[of k "sort (st x)"] by simp
  moreover have "py_index (sort (st x)) (int (k + 1)) = Inr (sort (st x) ! (k + 1))"
    using assms by (intro py_index_in_range) simp
  ultimately show ?thesis by (simp add: median_def list_sort_def Let_def)
qed

text \<open>On an empty list the even branch reads \<open>sorted_list[-1]\<close>, which raises.\<close>

lemma median_empty: "st x = [] \<Longrightarrow> fst (median st x) = Inl IndexError"
  by (simp add: median_def list_sort_def Let_def py_index_def)






text \<open>For the floats \<open>2^1023\<close> and \<open>2^1023\<close> the sum overflows and the result is infinite.\<close>

lemma median_overflows: "fst (median (one_list [2 ^ 1023, 2 ^ 1023]) 0) = Inl NotFinite"
proof -
  have l: "length (one_list [2 ^ 1023, 2 ^ 1023] 0) = 2 * 0 + 2" by (simp add: one_list_def)
  have s: "sort (one_list [2 ^ 1023, 2 ^ 1023] 0) = [2 ^ 1023, 2 ^ 1023]" by (simp add: one_list_def)
  have "fst (median (one_list [2 ^ 1023, 2 ^ 1023]) 0) = float_mean (2 ^ 1023) (2 ^ 1023)"
    using median_even[of "one_list [2 ^ 1023, 2 ^ 1023]" 0 0, OF l] by (simp only: s) simp
  then show ?thesis by (simp only: float_mean_overflows)
qed

text \<open>
  Claim C2 does not hold of the code: \<open>median\<close> sorts the caller's own list. Called on the
  list 3, 1, 2 it returns 2 and leaves the caller's list as 1, 2, 3.
\<close>

theorem median_sorts_callers_list:
  "fst (median (one_list [3, 1, 2]) 0) = Inr 2
   \<and> snd (median (one_list [3, 1, 2]) 0) 0 = [1, 2, 3]
   \<and> snd (median (one_list [3, 1, 2]) 0) 0 \<noteq> one_list [3, 1, 2] 0"
proof -
  have l: "length (one_list [3, 1, 2] 0) = 2 * 1 + 1" by (simp add: one_list_def)
  have s: "sort (one_list [3, 1, 2] 0) = [1, 2, 3]" by (simp add: one_list_def)
  have "fst (median (one_list [3, 1, 2]) 0) = Inr 2"
    using median_odd[of "one_list [3, 1, 2]" 0 1, OF l] s by simp
  moreover have "snd (median (one_list [3, 1, 2]) 0) 0 = [1, 2, 3]"
    using s by (simp add: median_store)
  moreover have "one_list [3, 1, 2] 0 = [3, 1, 2]" by (simp add: one_list_def)
  ultimately show ?thesis by simp
qed

section \<open>The summary statistics and the pooled t-test\<close>

lemma squared_deviations_nonneg: "0 \<le> squared_deviations xs"
  unfolding squared_deviations_def by (rule sum_list_nonneg) auto



lemma s_p_value:
  assumes "series_std g0 = Inr s_0" and "series_std g1 = Inr s_1"
  shows "s_p g0 g1 = Inr (sqrt (((real (length g0) - 1) * s_0\<^sup>2 + (real (length g1) - 1) * s_1\<^sup>2)
                                  / (real (length g0) + real (length g1) - 2)))"
proof -
  from assms have "2 \<le> length g0" "2 \<le> length g1"
    by (auto simp: series_std_def split: if_splits)
  then have "int (length g0) + int (length g1) - 2 \<noteq> 0" by simp
  with assms show ?thesis by (simp add: s_p_def Let_def)
qed

lemma t_manual_value:
  assumes "series_mean g0 = Inr xbar_0" and "series_mean g1 = Inr xbar_1" and "s_p g0 g1 = Inr sp"
  shows "t_manual g0 g1 =
           (if sp = 0 then Inl NotFinite
            else Inr ((xbar_0 - xbar_1) / (sp * sqrt (1 / real (length g0) + 1 / real (length g1)))))"
proof -
  from assms have ne: "g0 \<noteq> []" "g1 \<noteq> []" by (auto simp: series_mean_def split: if_splits)
  then have "0 < 1 / real (length g0) + 1 / real (length g1)" by (simp add: add_pos_pos)
  then have "sqrt (1 / real (length g0) + 1 / real (length g1)) \<noteq> 0" by simp
  with assms ne show ?thesis by (simp add: t_manual_def Let_def)
qed

text \<open>The groups 8, 20 and 1, 17: means 14 and 9, pooled deviation 10, statistic 1/2.\<close>

lemma sqrt_100: "sqrt 100 = 10"
  by (rule real_sqrt_unique) simp_all

lemma sqrt_9_4: "sqrt (9 / 4) = 3 / 2"
  by (rule real_sqrt_unique) (simp_all add: power2_eq_square)

lemma mean_8_20: "series_mean [8, 20] = Inr 14"
  by (simp add: series_mean_def)

lemma mean_1_17: "series_mean [1, 17] = Inr 9"
  by (simp add: series_mean_def)

lemma std_8_20: "series_std [8, 20] = Inr (sqrt 72)"
  by (simp add: series_std_def squared_deviations_def)

lemma std_1_17: "series_std [1, 17] = Inr (sqrt 128)"
  by (simp add: series_std_def squared_deviations_def)

lemma s_p_example: "s_p [8, 20] [1, 17] = Inr 10"
  using s_p_value[OF std_8_20 std_1_17] by (simp add: sqrt_100)

lemma s_p_example_swapped: "s_p [1, 17] [8, 20] = Inr 10"
  using s_p_value[OF std_1_17 std_8_20] by (simp add: sqrt_100)

lemma t_manual_example: "t_manual [8, 20] [1, 17] = Inr (1 / 2)"
  using t_manual_value[OF mean_8_20 mean_1_17 s_p_example] by simp

lemma t_manual_example_swapped: "t_manual [1, 17] [8, 20] = Inr (- (1 / 2))"
  using t_manual_value[OF mean_1_17 mean_8_20 s_p_example_swapped] by simp



section \<open>The p-value of the cell\<close>

lemma student2_cdf_half: "student2_cdf (1 / 2) d = 2 / 3"
proof -
  have "2 + (1 / 2 :: real)\<^sup>2 = 9 / 4" by (simp add: power2_eq_square)
  then have "sqrt (2 + (1 / 2)\<^sup>2) = 3 / 2" by (simp only: sqrt_9_4)
  then have "student2_cdf (1 / 2) d = 1 / 2 + (1 / 2) / (2 * (3 / 2))"
    by (simp only: student2_cdf_def)
  then show ?thesis by simp
qed

lemma student2_cdf_minus_half: "student2_cdf (- (1 / 2)) d = 1 / 3"
proof -
  have "2 + (- (1 / 2) :: real)\<^sup>2 = 9 / 4" by (simp add: power2_eq_square)
  then have "sqrt (2 + (- (1 / 2))\<^sup>2) = 3 / 2" by (simp only: sqrt_9_4)
  then have "student2_cdf (- (1 / 2)) d = 1 / 2 + (- (1 / 2)) / (2 * (3 / 2))"
    by (simp only: student2_cdf_def)
  then show ?thesis by simp
qed

lemma student2_cdf_symmetric: "symmetric_cdf student2_cdf"
proof -
  have b: "\<bar>x / (2 * sqrt (2 + x\<^sup>2))\<bar> \<le> 1 / 2" for x :: real
  proof -
    have "x\<^sup>2 \<le> 2 + x\<^sup>2" by simp
    then have "sqrt (x\<^sup>2) \<le> sqrt (2 + x\<^sup>2)" by (simp only: real_sqrt_le_iff)
    then have "\<bar>x\<bar> \<le> sqrt (2 + x\<^sup>2)" by simp
    moreover have "0 < sqrt (2 + x\<^sup>2)" by (simp add: add_pos_nonneg)
    ultimately have "\<bar>x\<bar> / sqrt (2 + x\<^sup>2) \<le> 1" by simp
    then show ?thesis by (simp add: abs_mult)
  qed
  have r: "0 \<le> student2_cdf x d \<and> student2_cdf x d \<le> 1" for x d
    using b[of x] unfolding student2_cdf_def by (simp only: abs_le_iff) linarith
  have n: "student2_cdf (- x) d = 1 - student2_cdf x d" for x d
    by (simp add: student2_cdf_def)
  from r n show ?thesis unfolding symmetric_cdf_def by blast
qed

lemma p_manual_example: "p_manual student2_cdf [8, 20] [1, 17] = Inr (4 / 3)"
  by (simp add: p_manual_def t_manual_example student2_cdf_half)

lemma p_manual_example_swapped: "p_manual student2_cdf [1, 17] [8, 20] = Inr (2 / 3)"
  by (simp add: p_manual_def t_manual_example_swapped student2_cdf_minus_half)

text \<open>
  Swapping the groups negates a finite statistic. Under a symmetric distribution function
  it turns the p-value \<open>p\<close> of the cell into \<open>2 - p\<close>: the cell doubles the lower tail at the
  statistic itself, which is the two-sided p-value only for a statistic that is not
  positive.
\<close>

lemma swap_quotient: "(b - a) / d = - ((a - b) / (d::real))"
  by (simp add: minus_divide_left)

lemma s_p_commute: "s_p g1 g0 = s_p g0 g1"
  by (auto simp: s_p_def Let_def series_std_def add.commute split: sum.splits)

lemma df_commute: "df g1 g0 = df g0 g1"
  by (simp add: df_def)

lemma t_manual_swap:
  assumes "t_manual g0 g1 = Inr t"
  shows "t_manual g1 g0 = Inr (- t)"
proof -
  from assms have ne: "g0 \<noteq> []" "g1 \<noteq> []" by (auto simp: t_manual_def Let_def split: if_splits)
  from assms ne obtain sp where sp: "s_p g0 g1 = Inr sp"
    by (auto simp: t_manual_def Let_def series_mean_def split: sum.splits)
  have m: "series_mean g0 = Inr (sum_list g0 / real (length g0))"
      "series_mean g1 = Inr (sum_list g1 / real (length g1))"
    using ne by (simp_all add: series_mean_def)
  from sp have sp': "s_p g1 g0 = Inr sp" by (simp add: s_p_commute)
  from assms t_manual_value[OF m(1) m(2) sp] have "sp \<noteq> 0" by (auto split: if_splits)
  with assms t_manual_value[OF m(1) m(2) sp] t_manual_value[OF m(2) m(1) sp']
  show ?thesis by (simp add: add.commute swap_quotient[of _ "sum_list g0 / real (length g0)"])
qed

lemma p_manual_finite:
  "t_manual g0 g1 = Inr t \<Longrightarrow> p_manual cdf g0 g1 = Inr (2 * cdf t (df g0 g1))"
  by (simp add: p_manual_def)

lemma p_manual_swap:
  assumes "symmetric_cdf cdf" and "t_manual g0 g1 = Inr t"
  shows "p_manual cdf g0 g1 = Inr (2 * cdf t (df g0 g1))
       \<and> p_manual cdf g1 g0 = Inr (2 - 2 * cdf t (df g0 g1))"
proof -
  from assms(1) have "cdf (- t) (df g0 g1) = 1 - cdf t (df g0 g1)" by (simp add: symmetric_cdf_def)
  with t_manual_swap[OF assms(2)] assms(2) show ?thesis by (simp add: p_manual_finite df_commute)
qed

lemma p_manual_by_sign:
  assumes "symmetric_cdf cdf" and "t_manual g0 g1 = Inr t"
  shows "p_manual cdf g0 g1 =
           Inr (if t \<le> 0 then 2 * cdf (- \<bar>t\<bar>) (df g0 g1) else 2 - 2 * cdf (- \<bar>t\<bar>) (df g0 g1))"
proof -
  from assms(1) have "cdf (- t) (df g0 g1) = 1 - cdf t (df g0 g1)" by (simp add: symmetric_cdf_def)
  with assms(2) show ?thesis by (auto simp: p_manual_finite)
qed

text \<open>
  With a pooled deviation of 0 the statistic is infinite and the cell still returns a
  p-value: 0 for the groups 5, 5 and 7, 7, and 2 for the groups swapped.
\<close>

lemma p_manual_infinite_statistic:
  "t_manual [5, 5] [7, 7] = Inl NotFinite \<and> p_manual cdf [5, 5] [7, 7] = Inr 0
   \<and> t_manual [7, 7] [5, 5] = Inl NotFinite \<and> p_manual cdf [7, 7] [5, 5] = Inr 2"
proof -
  have m: "series_mean [5, 5] = Inr 5" "series_mean [7, 7] = Inr 7" by (simp_all add: series_mean_def)
  have s: "series_std [5, 5] = Inr 0" "series_std [7, 7] = Inr 0"
    by (simp_all add: series_std_def squared_deviations_def)
  have sp: "s_p [5, 5] [7, 7] = Inr 0" "s_p [7, 7] [5, 5] = Inr 0"
    using s_p_value[OF s(1) s(2)] s_p_value[OF s(2) s(1)] by simp_all
  have t: "t_manual [5, 5] [7, 7] = Inl NotFinite" "t_manual [7, 7] [5, 5] = Inl NotFinite"
    using t_manual_value[OF m(1) m(2) sp(1)] t_manual_value[OF m(2) m(1) sp(2)] by simp_all
  then show ?thesis by (simp add: p_manual_def m sp)
qed

text \<open>The reference test has the statistic of the cell and the lower tail at \<open>-|t|\<close>.\<close>

lemma ttest_reference_value:
  assumes "2 \<le> length g0" and "2 \<le> length g1" and "t_manual g0 g1 = Inr t"
  shows "ttest_reference cdf g0 g1 = (t, 2 * cdf (- \<bar>t\<bar>) (df g0 g1))"
proof -
  from assms have ne: "g0 \<noteq> []" "g1 \<noteq> []" by auto
  have m: "series_mean g0 = Inr (sum_list g0 / real (length g0))"
      "series_mean g1 = Inr (sum_list g1 / real (length g1))"
    using ne by (simp_all add: series_mean_def)
  let ?v0 = "squared_deviations g0 / (real (length g0) - 1)"
  let ?v1 = "squared_deviations g1 / (real (length g1) - 1)"
  have v: "0 \<le> ?v0" "0 \<le> ?v1"
    using assms(1,2) squared_deviations_nonneg[of g0] squared_deviations_nonneg[of g1] by simp_all
  have s: "series_std g0 = Inr (sqrt ?v0)" "series_std g1 = Inr (sqrt ?v1)"
    using assms(1,2) by (simp_all add: series_std_def)
  note sp = s_p_value[OF s]
  from assms(3) t_manual_value[OF m sp] v
  have t: "t = fst (ttest_reference cdf g0 g1)"
    by (auto simp: ttest_reference_def Let_def split: if_splits)
  have "min t (- t) = - \<bar>t\<bar>" by auto
  with t have "snd (ttest_reference cdf g0 g1) = 2 * cdf (- \<bar>t\<bar>) (df g0 g1)"
    by (simp add: ttest_reference_def Let_def df_def)
  with t show ?thesis by (simp add: prod_eq_iff)
qed

lemma ttest_reference_example: "ttest_reference student2_cdf [8, 20] [1, 17] = (1 / 2, 2 / 3)"
proof -
  have l: "2 \<le> length [8, 20 :: real]" "2 \<le> length [1, 17 :: real]" by simp_all
  note r = ttest_reference_value[OF l t_manual_example, of student2_cdf]
  have "- \<bar>1 / 2 :: real\<bar> = - (1 / 2)" by simp
  with r show ?thesis by (simp only: student2_cdf_minus_half) simp
qed

text \<open>
  For the two groups of scenario 2 the first mean is the smaller one, the statistic is
  negative and the cell agrees with the reference exactly, whatever the distribution
  function.
\<close>

lemma scenario_two_groups:
  "\<exists>t. t < 0 \<and> t_manual [100, 200, 300] [150, 250, 350, 450] = Inr t
      \<and> p_manual cdf [100, 200, 300] [150, 250, 350, 450] = Inr (2 * cdf t 5)
      \<and> ttest_reference cdf [100, 200, 300] [150, 250, 350, 450] = (t, 2 * cdf t 5)"
proof -
  let ?a = "[100, 200, 300] :: real list" and ?b = "[150, 250, 350, 450] :: real list"
  have l: "2 \<le> length ?a" "2 \<le> length ?b" by simp_all
  have m: "series_mean ?a = Inr 200" "series_mean ?b = Inr 300" by (simp_all add: series_mean_def)
  have s: "series_std ?a = Inr (sqrt 10000)" "series_std ?b = Inr (sqrt (50000 / 3))"
    by (simp_all add: series_std_def squared_deviations_def)
  have sp: "s_p ?a ?b = Inr (sqrt 14000)" using s_p_value[OF s] by simp
  define t :: real
    where "t = (200 - 300) / (sqrt 14000 * sqrt (1 / real (length ?a) + 1 / real (length ?b)))"
  have "0 < sqrt 14000 * sqrt (1 / real (length ?a) + 1 / real (length ?b))" by simp
  then have neg: "t < 0" unfolding t_def by (intro divide_neg_pos) simp_all
  have tm: "t_manual ?a ?b = Inr t" using t_manual_value[OF m sp] by (simp add: t_def)
  have d: "df ?a ?b = 5" by (simp add: df_def)
  have p: "p_manual cdf ?a ?b = Inr (2 * cdf t 5)" using p_manual_finite[OF tm, of cdf] d by simp
  from neg have "- \<bar>t\<bar> = t" by simp
  with ttest_reference_value[OF l tm, of cdf] d
  have "ttest_reference cdf ?a ?b = (t, 2 * cdf t 5)" by simp
  with neg tm p show ?thesis by blast
qed

text \<open>
  Claim C1 does not hold of the code. For the groups 8, 20 and 1, 17 (two degrees of
  freedom) the statistic is 1/2 and the cell returns the p-value 4/3, above 1, where twice
  the distribution function at \<open>-|t|\<close> is 2/3.
\<close>

theorem p_manual_exceeds_one:
  "t_manual [8, 20] [1, 17] = Inr (1 / 2)
   \<and> p_manual student2_cdf [8, 20] [1, 17] = Inr (4 / 3)
   \<and> 2 * student2_cdf (- \<bar>1 / 2\<bar>) (df [8, 20] [1, 17]) = 2 / 3"
proof -
  have "- \<bar>1 / 2 :: real\<bar> = - (1 / 2)" by simp
  then have "2 * student2_cdf (- \<bar>1 / 2\<bar>) (df [8, 20] [1, 17]) = 2 / 3"
    by (simp only: student2_cdf_minus_half)
  with t_manual_example p_manual_example show ?thesis by simp
qed

text \<open>
  Claim C3 does not hold of the code in its second part. Swapping the groups 8, 20 and
  1, 17 negates the statistic, from 1/2 to -1/2, and changes the p-value of the cell from
  4/3 to 2/3.
\<close>

theorem p_manual_changes_on_swap:
  "t_manual [8, 20] [1, 17] = Inr (1 / 2) \<and> t_manual [1, 17] [8, 20] = Inr (- (1 / 2))
   \<and> p_manual student2_cdf [8, 20] [1, 17] = Inr (4 / 3)
   \<and> p_manual student2_cdf [1, 17] [8, 20] = Inr (2 / 3)"
  using t_manual_example t_manual_example_swapped p_manual_example p_manual_example_swapped
  by simp

text \<open>
  Claim C6 does not hold of the code. For the groups 8, 20 and 1, 17 the reference test
  gives the statistic 1/2 and the p-value 2/3; the cell gives the same statistic and the
  p-value 4/3, which is not within a relative \<open>10^-9\<close> of 2/3.
\<close>

theorem p_manual_differs_from_reference:
  "ttest_reference student2_cdf [8, 20] [1, 17] = (1 / 2, 2 / 3)
   \<and> t_manual [8, 20] [1, 17] = Inr (1 / 2)
   \<and> p_manual student2_cdf [8, 20] [1, 17] = Inr (4 / 3)
   \<and> \<not> \<bar>4 / 3 - 2 / 3\<bar> \<le> (1 / 10 ^ 9) * \<bar>2 / 3 :: real\<bar>"
  using ttest_reference_example t_manual_example p_manual_example by simp

section \<open>The confidence interval\<close>












end
